theory Spec2Isabelle
  imports Main "HOL-Library.AList"
begin

section \<open>The setup script of the workspace: a shallow embedding\<close>

text \<open>
  The program is the interactive setup script (\<^verbatim>\<open>main\<close> and its helpers:
  \<^verbatim>\<open>parseEnvFile\<close>, \<^verbatim>\<open>getMissingVariables\<close>, \<^verbatim>\<open>detectAvailableApps\<close>,
  \<^verbatim>\<open>promptDatabaseConfig\<close>, \<^verbatim>\<open>promptPortsConfig\<close>, \<^verbatim>\<open>promptSmtpConfig\<close>,
  \<^verbatim>\<open>checkEnvFiles\<close>, \<^verbatim>\<open>copyEnvFiles\<close>, \<^verbatim>\<open>updateEnvFile\<close>, \<^verbatim>\<open>renameProjects\<close>,
  \<^verbatim>\<open>updateAllEnvFiles\<close>, \<^verbatim>\<open>waitForDatabase\<close>, \<^verbatim>\<open>runCommand\<close>).

  Conventions of the model.
  \<^item> A JavaScript string is a HOL \<open>string\<close>: the model covers strings whose code units
    are below 256.
  \<^item> A path is written relative to \<^verbatim>\<open>projectRoot\<close>: \<^verbatim>\<open>join(projectRoot, 'apps/api/.env')\<close>
    is \<open>''apps/api/.env''\<close>.
  \<^item> A JavaScript number is \<open>NaN\<close> or an exact integer, printed in decimal: the model is
    the script's on integers below \<open>2 ^ 53\<close> in magnitude.
  \<^item> Everything the script does to the outside is explicit: the file system is an
    association list from paths to nodes, and every prompt, command, probe, sleep and
    file write is appended to a trace. The user, the external commands and the readiness
    probe are functions handed to the script.
  \<^item> Of the console output the trace keeps the warnings, the lines of
    \<^verbatim>\<open>waitForDatabase\<close> and the lines of \<^verbatim>\<open>main\<close> from the end of the write-back on,
    without colour codes and pictographs; headings, the configuration summary and
    the lines that only report progress are left out.
  \<^item> A thrown exception or a rejected promise is the \<open>Inl\<close> of a sum; the state
    reached when it was thrown is kept, as a \<^verbatim>\<open>catch\<close> block continues from it.
\<close>

subsection \<open>Strings\<close>

definition newline :: char where
  "newline = CHR 0x0A"

definition carriage_return :: char where
  "carriage_return = CHR 0x0D"

text \<open>The white space that \<^verbatim>\<open>String.prototype.trim\<close> and \<^verbatim>\<open>parseInt\<close> strip, below 256.\<close>

definition is_js_space :: "char \<Rightarrow> bool" where
  "is_js_space c =
     (c \<in> set [CHR 0x09, CHR 0x0A, CHR 0x0B, CHR 0x0C, CHR 0x0D, CHR 0x20, CHR 0xA0])"

text \<open>The characters that \<^verbatim>\<open>.\<close> does not match and that end a line for \<^verbatim>\<open>^\<close> and \<^verbatim>\<open>$\<close>
  under the \<^verbatim>\<open>m\<close> flag, below 256.\<close>

definition is_line_terminator :: "char \<Rightarrow> bool" where
  "is_line_terminator c = (c = newline \<or> c = carriage_return)"

definition trim :: "string \<Rightarrow> string" where
  "trim s = rev (dropWhile is_js_space (rev (dropWhile is_js_space s)))"

text \<open>\<^verbatim>\<open>s.split(c)\<close> for a one-character separator: the empty string gives one empty piece.\<close>

fun split_on :: "char \<Rightarrow> string \<Rightarrow> string list" where
  "split_on c [] = [[]]"
| "split_on c (x # xs) =
     (if x = c then [] # split_on c xs
      else (case split_on c xs of
              [] \<Rightarrow> [[x]]
            | l # ls \<Rightarrow> (x # l) # ls))"

text \<open>\<^verbatim>\<open>xs.join(sep)\<close>.\<close>

fun join_with :: "string \<Rightarrow> string list \<Rightarrow> string" where
  "join_with sep [] = []"
| "join_with sep [x] = x"
| "join_with sep (x # y # ys) = x @ sep @ join_with sep (y # ys)"

text \<open>\<^verbatim>\<open>s.startsWith(p)\<close>.\<close>

fun startsWith :: "string \<Rightarrow> string \<Rightarrow> bool" where
  "startsWith s [] = True"
| "startsWith [] (p # ps) = False"
| "startsWith (c # cs) (p # ps) = (if c = p then startsWith cs ps else False)"

subsection \<open>Numbers\<close>

datatype jsnum = NaN | Num int

definition is_digit :: "char \<Rightarrow> bool" where
  "is_digit c = (c \<in> set ''0123456789'')"

text \<open>The decimal digits and their values.\<close>

definition digit_table :: "(char \<times> int) list" where
  "digit_table = zip ''0123456789'' [0, 1, 2, 3, 4, 5, 6, 7, 8, 9]"

definition digit_value :: "char \<Rightarrow> int" where
  "digit_value c = (case map_of digit_table c of Some v \<Rightarrow> v | None \<Rightarrow> 0)"

definition digits_value :: "string \<Rightarrow> int" where
  "digits_value ds = foldl (\<lambda>a c. 10 * a + digit_value c) 0 ds"

text \<open>\<^verbatim>\<open>Number.parseInt(s, 10)\<close>: leading white space, an optional sign, then the longest
  run of decimal digits; \<open>NaN\<close> when there is no digit.\<close>

definition parseInt :: "string \<Rightarrow> jsnum" where
  "parseInt s =
     (let t = dropWhile is_js_space s;
          neg = (case t of [] \<Rightarrow> False | c # _ \<Rightarrow> c = CHR ''-'');
          u = (case t of [] \<Rightarrow> [] | c # r \<Rightarrow> if c = CHR ''-'' \<or> c = CHR ''+'' then r else t);
          ds = takeWhile is_digit u
      in if ds = [] then NaN
         else Num (if neg then - digits_value ds else digits_value ds))"

text \<open>A number in a condition or on the left of \<^verbatim>\<open>||\<close>: \<open>NaN\<close> and \<open>0\<close> are falsy.\<close>

fun truthy :: "jsnum \<Rightarrow> bool" where
  "truthy NaN = False"
| "truthy (Num i) = (i \<noteq> 0)"

text \<open>\<^verbatim>\<open>n || d\<close> for numbers.\<close>

definition num_or :: "jsnum \<Rightarrow> int \<Rightarrow> jsnum" where
  "num_or n d = (if truthy n then n else Num d)"

definition digit_char :: "int \<Rightarrow> char" where
  "digit_char d =
     (case map_of (map (\<lambda>(c, v). (v, c)) digit_table) d of
        Some c \<Rightarrow> c
      | None \<Rightarrow> CHR ''0'')"

text \<open>The decimal digits of an integer that is not negative.\<close>

function show_digits :: "int \<Rightarrow> string" where
  "show_digits n =
     (if n < 10 then [digit_char n]
      else show_digits (n div 10) @ [digit_char (n mod 10)])"
  by pat_completeness auto
termination
  by (relation "measure (\<lambda>n. nat n)") auto

declare show_digits.simps [simp del]

text \<open>\<^verbatim>\<open>n.toString()\<close> and the conversion of \<^verbatim>\<open>${n}\<close> in a template string.\<close>

fun toString :: "jsnum \<Rightarrow> string" where
  "toString NaN = ''NaN''"
| "toString (Num i) = (if i < 0 then CHR ''-'' # show_digits (- i) else show_digits i)"

subsection \<open>Objects used as dictionaries\<close>

text \<open>
  \<^verbatim>\<open>const vars: Record<string, string> = {}\<close> is an ordinary object: its own properties
  are kept in the order they were created, and it inherits the properties of
  \<^verbatim>\<open>Object.prototype\<close>, which \<^verbatim>\<open>key in vars\<close> and \<^verbatim>\<open>vars[key]\<close> see.
\<close>

type_synonym env_vars = "(string \<times> string) list"

definition object_prototype_names :: "string list" where
  "object_prototype_names =
     [''constructor'', ''__defineGetter__'', ''__defineSetter__'', ''hasOwnProperty'',
      ''__lookupGetter__'', ''__lookupSetter__'', ''isPrototypeOf'',
      ''propertyIsEnumerable'', ''toString'', ''valueOf'', ''__proto__'',
      ''toLocaleString'']"

text \<open>\<^verbatim>\<open>vars[key] = value\<close>: an own property is created or overwritten in place; the
  assignment of a string to \<^verbatim>\<open>__proto__\<close> is ignored by the inherited setter.\<close>

definition obj_set :: "env_vars \<Rightarrow> string \<Rightarrow> string \<Rightarrow> env_vars" where
  "obj_set vars key v = (if key = ''__proto__'' then vars else AList.update key v vars)"

text \<open>\<^verbatim>\<open>key in vars\<close>.\<close>

definition js_in :: "string \<Rightarrow> env_vars \<Rightarrow> bool" where
  "js_in key vars = (key \<in> set (map fst vars) \<or> key \<in> set object_prototype_names)"

text \<open>The truthiness of \<^verbatim>\<open>vars[key]\<close>: an own string is truthy when it is not empty, an
  inherited member (a function or an object) is truthy, \<^verbatim>\<open>undefined\<close> is falsy.\<close>

definition js_truthy_at :: "env_vars \<Rightarrow> string \<Rightarrow> bool" where
  "js_truthy_at vars key =
     (case map_of vars key of
        Some v \<Rightarrow> v \<noteq> []
      | None \<Rightarrow> key \<in> set object_prototype_names)"

text \<open>An array index: the canonical decimal form of an integer up to \<open>2 ^ 32 - 2\<close>.\<close>

definition is_array_index :: "string \<Rightarrow> bool" where
  "is_array_index k =
     (case k of
        [] \<Rightarrow> False
      | c # r \<Rightarrow>
          if list_all is_digit k \<and> (c \<noteq> CHR ''0'' \<or> r = []) then digits_value k \<le> 4294967294
          else False)"

text \<open>\<^verbatim>\<open>Object.keys(vars)\<close>: the array indices in ascending order, then the other keys in
  the order they were created.\<close>

definition object_keys :: "env_vars \<Rightarrow> string list" where
  "object_keys vars =
     (let ks = map fst vars
      in sort_key digits_value (filter is_array_index ks) @
         filter (\<lambda>k. \<not> is_array_index k) ks)"

text \<open>\<^verbatim>\<open>vars.KEY || d\<close> for a literal \<^verbatim>\<open>KEY\<close> that is not a member of \<^verbatim>\<open>Object.prototype\<close>.\<close>

definition field_or :: "env_vars \<Rightarrow> string \<Rightarrow> string \<Rightarrow> string" where
  "field_or vars key d =
     (case map_of vars key of
        Some v \<Rightarrow> if v \<noteq> [] then v else d
      | None \<Rightarrow> d)"

subsection \<open>The file system, the trace and errors\<close>

text \<open>
  A path that exists holds a file, a directory with the names \<^verbatim>\<open>readdirSync\<close> lists, or a
  node that exists but can be neither read, listed nor written (\<open>Denied\<close>; its flag says
  whether \<^verbatim>\<open>statSync\<close> reports a directory). A name listed in a directory whose path is
  absent is a dangling link: \<^verbatim>\<open>statSync\<close> throws on it.
\<close>

datatype node = File string | Dir "string list" | Denied bool

text \<open>The file system: the node at a path is the first pair with that path.\<close>

type_synonym fs = "(string \<times> node) list"

datatype error =
    FsError string
  | PromptAborted
  | CommandFailed "int option"
  | LaunchFailed
  | JsonError string

datatype event =
    Asked string string
  | Confirmed string
  | Ran string "string list"
  | Probed
  | Slept int
  | Wrote string
  | Copied string string
  | Logged string

record world =
  files :: fs
  trace :: "event list"

definition emit :: "event \<Rightarrow> world \<Rightarrow> world" where
  "emit e w = w\<lparr>trace := trace w @ [e]\<rparr>"

definition existsSync :: "fs \<Rightarrow> string \<Rightarrow> bool" where
  "existsSync f p = (map_of f p \<noteq> None)"

definition readFileSync :: "fs \<Rightarrow> string \<Rightarrow> error + string" where
  "readFileSync f p = (case map_of f p of Some (File c) \<Rightarrow> Inr c | _ \<Rightarrow> Inl (FsError p))"

definition readdirSync :: "fs \<Rightarrow> string \<Rightarrow> error + string list" where
  "readdirSync f p = (case map_of f p of Some (Dir names) \<Rightarrow> Inr names | _ \<Rightarrow> Inl (FsError p))"

text \<open>\<^verbatim>\<open>statSync(p).isDirectory()\<close>.\<close>

definition stat_isDirectory :: "fs \<Rightarrow> string \<Rightarrow> error + bool" where
  "stat_isDirectory f p =
     (case map_of f p of
        None \<Rightarrow> Inl (FsError p)
      | Some (File _) \<Rightarrow> Inr False
      | Some (Dir _) \<Rightarrow> Inr True
      | Some (Denied d) \<Rightarrow> Inr d)"

text \<open>\<^verbatim>\<open>join(dir, item)\<close> for an item that \<^verbatim>\<open>readdirSync\<close> returned.\<close>

definition join_path :: "string \<Rightarrow> string \<Rightarrow> string" where
  "join_path dir item = dir @ ''/'' @ item"

text \<open>\<^verbatim>\<open>writeFileSync(p, c, 'utf-8')\<close>: the write is recorded in the trace when it happens.\<close>

definition writeFileSync :: "string \<Rightarrow> string \<Rightarrow> world \<Rightarrow> (error + unit) \<times> world" where
  "writeFileSync p c w =
     (case map_of (files w) p of
        Some (Dir _) \<Rightarrow> (Inl (FsError p), w)
      | Some (Denied _) \<Rightarrow> (Inl (FsError p), w)
      | _ \<Rightarrow> (Inr (), emit (Wrote p) (w\<lparr>files := AList.update p (File c) (files w)\<rparr>)))"

definition copyFileSync :: "string \<Rightarrow> string \<Rightarrow> world \<Rightarrow> (error + unit) \<times> world" where
  "copyFileSync src dst w =
     (case readFileSync (files w) src of
        Inl e \<Rightarrow> (Inl e, w)
      | Inr c \<Rightarrow>
          (case map_of (files w) dst of
             Some (Dir _) \<Rightarrow> (Inl (FsError dst), w)
           | Some (Denied _) \<Rightarrow> (Inl (FsError dst), w)
           | _ \<Rightarrow>
               (Inr (), emit (Copied src dst) (w\<lparr>files := AList.update dst (File c) (files w)\<rparr>))))"

text \<open>Sequencing of steps that may throw: the first error stops the sequence.\<close>

definition and_then ::
  "(world \<Rightarrow> (error + 'a) \<times> world) \<Rightarrow> ('a \<Rightarrow> world \<Rightarrow> (error + 'b) \<times> world) \<Rightarrow>
   world \<Rightarrow> (error + 'b) \<times> world" where
  "and_then m k w = (case m w of (Inl e, w') \<Rightarrow> (Inl e, w') | (Inr x, w') \<Rightarrow> k x w')"

definition return :: "'a \<Rightarrow> world \<Rightarrow> (error + 'a) \<times> world" where
  "return x w = (Inr x, w)"

text \<open>A synchronous read of the file system, which may throw and changes nothing.\<close>

definition reading :: "(fs \<Rightarrow> error + 'a) \<Rightarrow> world \<Rightarrow> (error + 'a) \<times> world" where
  "reading r w = (r (files w), w)"

definition console_log :: "string \<Rightarrow> world \<Rightarrow> (error + unit) \<times> world" where
  "console_log s w = (Inr (), emit (Logged s) w)"

subsection \<open>parseEnvFile and getMissingVariables\<close>

text \<open>\<^verbatim>\<open>trimmed.match(/^([^=]+)=(.*)$/)\<close>: the key is everything before the first \<^verbatim>\<open>=\<close>
  and is not empty; the rest must hold no line terminator.\<close>

definition match_assignment :: "string \<Rightarrow> (string \<times> string) option" where
  "match_assignment t =
     (let k = takeWhile (\<lambda>c. c \<noteq> CHR ''='') t;
          r = dropWhile (\<lambda>c. c \<noteq> CHR ''='') t
      in if k = [] then None
         else (case r of
                 [] \<Rightarrow> None
               | _ # v \<Rightarrow> if list_ex is_line_terminator v then None else Some (k, v)))"

text \<open>The body of the loop over the lines.\<close>

definition parseEnvLine :: "env_vars \<Rightarrow> string \<Rightarrow> env_vars" where
  "parseEnvLine vars line =
     (let trimmed = trim line
      in if trimmed \<noteq> [] \<and> \<not> startsWith trimmed ''#'' then
           (case match_assignment trimmed of
              Some (k, v) \<Rightarrow> obj_set vars (trim k) (trim v)
            | None \<Rightarrow> vars)
         else vars)"

definition parseEnvText :: "string \<Rightarrow> env_vars" where
  "parseEnvText content = foldl parseEnvLine [] (split_on newline content)"

definition parseEnvFile :: "fs \<Rightarrow> string \<Rightarrow> error + env_vars" where
  "parseEnvFile f filePath =
     (if \<not> existsSync f filePath then Inr []
      else (case readFileSync f filePath of
              Inl e \<Rightarrow> Inl e
            | Inr content \<Rightarrow> Inr (parseEnvText content)))"

text \<open>The filter of \<^verbatim>\<open>getMissingVariables\<close>:
  \<^verbatim>\<open>key => !(key in envVars) || !envVars[key]\<close>.\<close>

definition is_missing :: "env_vars \<Rightarrow> string \<Rightarrow> bool" where
  "is_missing envVars key = (\<not> js_in key envVars \<or> \<not> js_truthy_at envVars key)"

definition getMissingVariables :: "fs \<Rightarrow> string \<Rightarrow> string \<Rightarrow> error + string list" where
  "getMissingVariables f examplePath envPath =
     (case parseEnvFile f examplePath of
        Inl e \<Rightarrow> Inl e
      | Inr exampleVars \<Rightarrow>
          (case parseEnvFile f envPath of
             Inl e \<Rightarrow> Inl e
           | Inr envVars \<Rightarrow> Inr (filter (is_missing envVars) (object_keys exampleVars))))"

subsection \<open>detectAvailableApps\<close>

record AvailableApps =
  api :: bool
  webSpa :: bool
  webSsr :: bool
  openapiGenerator :: bool

text \<open>\<^verbatim>\<open>readdirSync(dir).filter(item => statSync(join(dir, item)).isDirectory())\<close>.\<close>

fun keep_directories :: "fs \<Rightarrow> string \<Rightarrow> string list \<Rightarrow> error + string list" where
  "keep_directories f dir [] = Inr []"
| "keep_directories f dir (item # items) =
     (case stat_isDirectory f (join_path dir item) of
        Inl e \<Rightarrow> Inl e
      | Inr d \<Rightarrow>
          (case keep_directories f dir items of
             Inl e \<Rightarrow> Inl e
           | Inr r \<Rightarrow> Inr (if d then item # r else r)))"

definition list_directories :: "fs \<Rightarrow> string \<Rightarrow> error + string list" where
  "list_directories f dir =
     (case readdirSync f dir of
        Inl e \<Rightarrow> Inl e
      | Inr items \<Rightarrow> keep_directories f dir items)"

definition detectAvailableApps :: "fs \<Rightarrow> error + AvailableApps" where
  "detectAvailableApps f =
     (let apps = \<lparr>api = False, webSpa = False, webSsr = False, openapiGenerator = False\<rparr>
      in case (if existsSync f ''apps'' then
                 (case list_directories f ''apps'' of
                    Inl e \<Rightarrow> Inl e
                  | Inr appDirs \<Rightarrow>
                      Inr (apps\<lparr>api := ''api'' \<in> set appDirs,
                                webSpa := ''web-spa'' \<in> set appDirs,
                                webSsr := ''web-ssr'' \<in> set appDirs\<rparr>))
               else Inr apps) of
           Inl e \<Rightarrow> Inl e
         | Inr apps1 \<Rightarrow>
             (if existsSync f ''packages'' then
                (case list_directories f ''packages'' of
                   Inl e \<Rightarrow> Inl e
                 | Inr packageDirs \<Rightarrow>
                     Inr (apps1\<lparr>openapiGenerator := ''openapi-generator'' \<in> set packageDirs\<rparr>))
              else Inr apps1))"

subsection \<open>The user, the external commands and the probe\<close>

text \<open>
  How a child process ends: its \<^verbatim>\<open>close\<close> event with the exit code (\<^verbatim>\<open>null\<close> when a
  signal killed it), its \<^verbatim>\<open>error\<close> event (the process could not be launched), or
  \<^verbatim>\<open>spawn\<close> itself throwing.
\<close>

datatype proc_outcome = Closed "int option" | ErrorEvent | Threw

text \<open>
  The outside of the script. \<open>answer message initial\<close> is the text the user gives to
  \<^verbatim>\<open>prompt(message, initial)\<close> and \<open>agree message\<close> the reply to \<^verbatim>\<open>confirm(message)\<close>;
  \<open>None\<close> is a prompt that rejects (the input was closed or interrupted).
  \<open>command\<close> is how \<^verbatim>\<open>runCommand\<close>'s child ends, \<open>probe i\<close> how the readiness probe of
  attempt \<open>i\<close> ends. \<open>set_name\<close> and \<open>rename_deps\<close> stand for what the script does to
  the text of a \<^verbatim>\<open>package.json\<close> through \<^verbatim>\<open>JSON.parse\<close> and \<^verbatim>\<open>JSON.stringify\<close>;
  \<open>None\<close> is a text that \<^verbatim>\<open>JSON.parse\<close> refuses.
\<close>

record outside =
  answer :: "string \<Rightarrow> string \<Rightarrow> string option"
  agree :: "string \<Rightarrow> bool option"
  command :: "string \<Rightarrow> string list \<Rightarrow> proc_outcome"
  probe :: "nat \<Rightarrow> proc_outcome"
  set_name :: "string \<Rightarrow> string \<Rightarrow> string option"
  rename_deps :: "string \<Rightarrow> string \<Rightarrow> string \<Rightarrow> string option"

definition prompt :: "outside \<Rightarrow> string \<Rightarrow> string \<Rightarrow> world \<Rightarrow> (error + string) \<times> world" where
  "prompt u message initial w =
     ((case answer u message initial of None \<Rightarrow> Inl PromptAborted | Some s \<Rightarrow> Inr s),
      emit (Asked message initial) w)"

definition confirm :: "outside \<Rightarrow> string \<Rightarrow> world \<Rightarrow> (error + bool) \<times> world" where
  "confirm u message w =
     ((case agree u message of None \<Rightarrow> Inl PromptAborted | Some b \<Rightarrow> Inr b),
      emit (Confirmed message) w)"

definition runCommand :: "outside \<Rightarrow> string \<Rightarrow> string list \<Rightarrow> world \<Rightarrow> (error + unit) \<times> world" where
  "runCommand u cmd args w =
     ((case command u cmd args of
         Closed code \<Rightarrow> if code = Some 0 then Inr () else Inl (CommandFailed code)
       | ErrorEvent \<Rightarrow> Inl LaunchFailed
       | Threw \<Rightarrow> Inl LaunchFailed),
      emit (Ran cmd args) w)"

subsection \<open>waitForDatabase\<close>

text \<open>The body of the \<^verbatim>\<open>try\<close> block up to \<^verbatim>\<open>exitCode\<close>: \<^verbatim>\<open>code ?? 1\<close> on \<^verbatim>\<open>close\<close>,
  \<^verbatim>\<open>1\<close> on \<^verbatim>\<open>error\<close>; a throwing \<^verbatim>\<open>spawn\<close> leaves the block.\<close>

definition probe_exitCode :: "proc_outcome \<Rightarrow> error + int" where
  "probe_exitCode out =
     (case out of
        Closed code \<Rightarrow> Inr (case code of None \<Rightarrow> 1 | Some c \<Rightarrow> c)
      | ErrorEvent \<Rightarrow> Inr 1
      | Threw \<Rightarrow> Inl LaunchFailed)"

text \<open>The \<^verbatim>\<open>for\<close> loop, from the value \<open>i\<close> of its counter.\<close>

function waitLoop ::
  "(nat \<Rightarrow> proc_outcome) \<Rightarrow> int \<Rightarrow> int \<Rightarrow> int \<Rightarrow> world \<Rightarrow> (error + bool) \<times> world" where
  "waitLoop pr maxRetries delayMs i w =
     (if i < maxRetries then
        (case probe_exitCode (pr (nat i)) of
           Inr exitCode \<Rightarrow>
             if exitCode = 0 then (Inr True, emit (Logged ''Database is ready!'') (emit Probed w))
             else waitLoop pr maxRetries delayMs (i + 1) (emit (Slept delayMs) (emit Probed w))
         | Inl _ \<Rightarrow> waitLoop pr maxRetries delayMs (i + 1) (emit (Slept delayMs) (emit Probed w)))
      else
        (Inr False,
         emit (Logged (''Database not ready after '' @ toString (Num maxRetries) @ '' attempts'')) w))"
  by pat_completeness auto
termination
  by (relation "measure (\<lambda>(pr, maxRetries, delayMs, i, w). nat (maxRetries - i))") auto

declare waitLoop.simps [simp del]

definition waitForDatabase ::
  "outside \<Rightarrow> int \<Rightarrow> int \<Rightarrow> world \<Rightarrow> (error + bool) \<times> world" where
  "waitForDatabase u maxRetries delayMs w =
     waitLoop (probe u) maxRetries delayMs 0
       (emit (Logged ''Waiting for database to be ready...'') w)"

subsection \<open>The prompts\<close>

record db_config =
  db_user :: string
  db_password :: string
  db_name :: string
  db_host :: string
  db_port :: jsnum

record ports_config =
  api_port :: "jsnum option"
  webSpa_port :: "jsnum option"
  webSsr_port :: "jsnum option"

record smtp_config =
  smtp_port :: jsnum
  smtp_portWeb :: jsnum

record EnvConfig =
  database :: db_config
  ports :: ports_config
  smtp :: smtp_config

text \<open>\<^verbatim>\<open>existingVars = envExists ? parseEnvFile(envPath) : {}\<close> and
  \<^verbatim>\<open>exampleVars = parseEnvFile(examplePath)\<close>.\<close>

definition existing_and_example ::
  "string \<Rightarrow> string \<Rightarrow> fs \<Rightarrow> error + env_vars \<times> env_vars" where
  "existing_and_example examplePath envPath f =
     (case (if existsSync f envPath then parseEnvFile f envPath else Inr []) of
        Inl e \<Rightarrow> Inl e
      | Inr existingVars \<Rightarrow>
          (case parseEnvFile f examplePath of
             Inl e \<Rightarrow> Inl e
           | Inr exampleVars \<Rightarrow> Inr (existingVars, exampleVars)))"

text \<open>The four lines that open \<^verbatim>\<open>promptDatabaseConfig\<close>, \<^verbatim>\<open>promptSmtpConfig\<close> and the API
  part of \<^verbatim>\<open>promptPortsConfig\<close>: the two maps and
  \<^verbatim>\<open>missingVars = envExists ? getMissingVariables(examplePath, envPath) : Object.keys(exampleVars)\<close>.\<close>

definition env_status ::
  "string \<Rightarrow> string \<Rightarrow> fs \<Rightarrow> error + env_vars \<times> env_vars \<times> string list" where
  "env_status examplePath envPath f =
     (case existing_and_example examplePath envPath f of
        Inl e \<Rightarrow> Inl e
      | Inr (existingVars, exampleVars) \<Rightarrow>
          (case (if existsSync f envPath then getMissingVariables f examplePath envPath
                 else Inr (object_keys exampleVars)) of
             Inl e \<Rightarrow> Inl e
           | Inr missingVars \<Rightarrow> Inr (existingVars, exampleVars, missingVars)))"

text \<open>\<^verbatim>\<open>missingVars.includes(KEY) ? await prompt(label, existingVars.KEY || exampleVars.KEY || d)
  : existingVars.KEY || d\<close>.\<close>

definition ask_if_missing ::
  "outside \<Rightarrow> string list \<Rightarrow> env_vars \<Rightarrow> env_vars \<Rightarrow> string \<Rightarrow> string \<Rightarrow> string \<Rightarrow>
   world \<Rightarrow> (error + string) \<times> world" where
  "ask_if_missing u missingVars existingVars exampleVars key label d =
     (if key \<in> set missingVars then
        prompt u label (field_or existingVars key (field_or exampleVars key d))
      else return (field_or existingVars key d))"

definition dbVars :: "string list" where
  "dbVars = [''DATABASE_USER'', ''DATABASE_PASSWORD'', ''DATABASE_NAME'', ''DATABASE_HOST'',
             ''DATABASE_PORT'']"

definition promptDatabaseConfig :: "outside \<Rightarrow> world \<Rightarrow> (error + db_config) \<times> world" where
  "promptDatabaseConfig u =
     and_then (reading (env_status ''.env.example'' ''.env''))
       (\<lambda>(existingVars, exampleVars, missingVars).
          if \<not> list_ex (\<lambda>v. v \<in> set missingVars) dbVars then
            return \<lparr>db_user = field_or existingVars ''DATABASE_USER'' ''postgres'',
                    db_password = field_or existingVars ''DATABASE_PASSWORD'' ''postgres'',
                    db_name = field_or existingVars ''DATABASE_NAME'' ''lonestone_test'',
                    db_host = field_or existingVars ''DATABASE_HOST'' ''localhost'',
                    db_port = parseInt (field_or existingVars ''DATABASE_PORT'' ''5111'')\<rparr>
          else
            and_then (ask_if_missing u missingVars existingVars exampleVars
                        ''DATABASE_USER'' ''Database user'' ''postgres'')
              (\<lambda>user.
            and_then (ask_if_missing u missingVars existingVars exampleVars
                        ''DATABASE_PASSWORD'' ''Database password'' ''postgres'')
              (\<lambda>password.
            and_then (ask_if_missing u missingVars existingVars exampleVars
                        ''DATABASE_NAME'' ''Database name'' ''lonestone_test'')
              (\<lambda>name.
            and_then (ask_if_missing u missingVars existingVars exampleVars
                        ''DATABASE_HOST'' ''Database host'' ''localhost'')
              (\<lambda>host.
            and_then (ask_if_missing u missingVars existingVars exampleVars
                        ''DATABASE_PORT'' ''Database port'' ''5111'')
              (\<lambda>portStr.
            return \<lparr>db_user = user, db_password = password, db_name = name, db_host = host,
                    db_port = num_or (parseInt portStr) 5111\<rparr>))))))"

definition smtpVars :: "string list" where
  "smtpVars = [''SMTP_PORT'', ''SMTP_PORT_WEB'']"

definition promptSmtpConfig :: "outside \<Rightarrow> world \<Rightarrow> (error + smtp_config) \<times> world" where
  "promptSmtpConfig u =
     and_then (reading (env_status ''.env.example'' ''.env''))
       (\<lambda>(existingVars, exampleVars, missingVars).
          if \<not> list_ex (\<lambda>v. v \<in> set missingVars) smtpVars then
            return \<lparr>smtp_port = parseInt (field_or existingVars ''SMTP_PORT'' ''1025''),
                    smtp_portWeb = parseInt (field_or existingVars ''SMTP_PORT_WEB'' ''1080'')\<rparr>
          else
            and_then (ask_if_missing u missingVars existingVars exampleVars
                        ''SMTP_PORT'' ''SMTP port'' ''1025'')
              (\<lambda>portStr.
            and_then (ask_if_missing u missingVars existingVars exampleVars
                        ''SMTP_PORT_WEB'' ''MailDev web port'' ''1080'')
              (\<lambda>portWebStr.
            return \<lparr>smtp_port = num_or (parseInt portStr) 1025,
                    smtp_portWeb = num_or (parseInt portWebStr) 1080\<rparr>)))"

text \<open>
  \<^verbatim>\<open>promptPortsConfig\<close>, first half: what \<^verbatim>\<open>ports\<close> and \<^verbatim>\<open>needsPortConfig\<close> hold when
  the three \<^verbatim>\<open>if (availableApps...)\<close> blocks have run. It only reads.
\<close>

definition frontend_missing :: "string \<Rightarrow> string \<Rightarrow> fs \<Rightarrow> error + string list" where
  "frontend_missing examplePath envPath f =
     (if existsSync f envPath then getMissingVariables f examplePath envPath else Inr [])"

definition ports_needed :: "AvailableApps \<Rightarrow> fs \<Rightarrow> error + ports_config \<times> string list" where
  "ports_needed availableApps f =
     (let ports0 = \<lparr>api_port = None, webSpa_port = None, webSsr_port = None\<rparr>
      in case (if api availableApps then
                 (case env_status ''apps/api/.env.example'' ''apps/api/.env'' f of
                    Inl e \<Rightarrow> Inl e
                  | Inr (existingVars, exampleVars, missingVars) \<Rightarrow>
                      if ''API_PORT'' \<in> set missingVars then Inr (ports0, [''API''])
                      else Inr (ports0\<lparr>api_port :=
                                  Some (parseInt (field_or existingVars ''API_PORT'' ''3000''))\<rparr>,
                                []))
               else Inr (ports0, [])) of
           Inl e \<Rightarrow> Inl e
         | Inr (ports1, needs1) \<Rightarrow>
             (case (if webSpa availableApps then
                      (case frontend_missing ''apps/web-spa/.env.example'' ''apps/web-spa/.env'' f of
                         Inl e \<Rightarrow> Inl e
                       | Inr missingVars \<Rightarrow>
                           Inr (if missingVars \<noteq> [] then needs1 @ [''Web SPA''] else needs1))
                    else Inr needs1) of
                Inl e \<Rightarrow> Inl e
              | Inr needs2 \<Rightarrow>
                  (case (if webSsr availableApps then
                           (case frontend_missing ''apps/web-ssr/.env.example''
                                   ''apps/web-ssr/.env'' f of
                              Inl e \<Rightarrow> Inl e
                            | Inr missingVars \<Rightarrow>
                                Inr (if missingVars \<noteq> [] then needs2 @ [''Web SSR''] else needs2))
                         else Inr needs2) of
                     Inl e \<Rightarrow> Inl e
                   | Inr needs3 \<Rightarrow> Inr (ports1, needs3))))"

text \<open>One of the three prompting blocks of the second half: the two maps are read again,
  the port is asked with \<^verbatim>\<open>existingVars.KEY || exampleVars.KEY || d\<close> as its initial
  value, and the answer is \<^verbatim>\<open>Number.parseInt(answer, 10) || fallback\<close>.\<close>

definition ask_port ::
  "outside \<Rightarrow> string \<Rightarrow> string \<Rightarrow> string \<Rightarrow> string \<Rightarrow> string \<Rightarrow> int \<Rightarrow>
   world \<Rightarrow> (error + jsnum) \<times> world" where
  "ask_port u examplePath envPath key label d fallback =
     and_then (reading (existing_and_example examplePath envPath))
       (\<lambda>(existingVars, exampleVars).
          and_then (prompt u label (field_or existingVars key (field_or exampleVars key d)))
            (\<lambda>portStr. return (num_or (parseInt portStr) fallback)))"

text \<open>The three blocks of the second half, each on the \<^verbatim>\<open>ports\<close> object it finds.\<close>

definition resolve_api_port ::
  "outside \<Rightarrow> AvailableApps \<Rightarrow> string list \<Rightarrow> ports_config \<Rightarrow>
   world \<Rightarrow> (error + ports_config) \<times> world" where
  "resolve_api_port u availableApps needsPortConfig pc =
     (if api availableApps \<and> ''API'' \<in> set needsPortConfig then
        and_then (ask_port u ''apps/api/.env.example'' ''apps/api/.env''
                    ''API_PORT'' ''API port'' ''3000'' 3000)
          (\<lambda>n. return (pc\<lparr>api_port := Some n\<rparr>))
      else if api availableApps then
        and_then (reading (\<lambda>f. parseEnvFile f ''apps/api/.env''))
          (\<lambda>existingVars.
             return (pc\<lparr>api_port :=
                       Some (parseInt (field_or existingVars ''API_PORT'' ''3000''))\<rparr>))
      else return pc)"

definition resolve_webSpa_port ::
  "outside \<Rightarrow> AvailableApps \<Rightarrow> string list \<Rightarrow> ports_config \<Rightarrow>
   world \<Rightarrow> (error + ports_config) \<times> world" where
  "resolve_webSpa_port u availableApps needsPortConfig pc =
     (if webSpa availableApps \<and> ''Web SPA'' \<in> set needsPortConfig then
        and_then (ask_port u ''apps/web-spa/.env.example'' ''apps/web-spa/.env''
                    ''VITE_PORT'' ''Web SPA port'' ''5173'' 5173)
          (\<lambda>n. return (pc\<lparr>webSpa_port := Some n\<rparr>))
      else return pc)"

definition resolve_webSsr_port ::
  "outside \<Rightarrow> AvailableApps \<Rightarrow> string list \<Rightarrow> ports_config \<Rightarrow>
   world \<Rightarrow> (error + ports_config) \<times> world" where
  "resolve_webSsr_port u availableApps needsPortConfig pc =
     (if webSsr availableApps \<and> ''Web SSR'' \<in> set needsPortConfig then
        and_then (ask_port u ''apps/web-ssr/.env.example'' ''apps/web-ssr/.env''
                    ''PORT'' ''Web SSR port'' ''5174'' 5174)
          (\<lambda>n. return (pc\<lparr>webSsr_port := Some n\<rparr>))
      else return pc)"

definition promptPortsConfig ::
  "outside \<Rightarrow> AvailableApps \<Rightarrow> world \<Rightarrow> (error + ports_config) \<times> world" where
  "promptPortsConfig u availableApps =
     and_then (reading (ports_needed availableApps))
       (\<lambda>(ports1, needsPortConfig).
          if needsPortConfig = [] then return ports1
          else
            and_then (resolve_api_port u availableApps needsPortConfig ports1)
              (\<lambda>ports2.
            and_then (resolve_webSpa_port u availableApps needsPortConfig ports2)
              (\<lambda>ports3.
            resolve_webSsr_port u availableApps needsPortConfig ports3)))"

subsection \<open>checkEnvFiles and copyEnvFiles\<close>

record EnvFileInfo =
  env_from :: string
  env_to :: string
  env_exists :: bool
  env_missingVars :: "string list"

definition envFiles :: "AvailableApps \<Rightarrow> (string \<times> string) list" where
  "envFiles availableApps =
     [(''.env.example'', ''.env'')] @
     (if api availableApps then [(''apps/api/.env.example'', ''apps/api/.env'')] else []) @
     (if webSpa availableApps then [(''apps/web-spa/.env.example'', ''apps/web-spa/.env'')]
      else []) @
     (if webSsr availableApps then [(''apps/web-ssr/.env.example'', ''apps/web-ssr/.env'')]
      else []) @
     (if openapiGenerator availableApps then
        [(''packages/openapi-generator/.env.example'', ''packages/openapi-generator/.env'')]
      else [])"

text \<open>The \<^verbatim>\<open>map\<close> over the pairs; a read that throws ends it.\<close>

fun check_each :: "fs \<Rightarrow> (string \<times> string) list \<Rightarrow> error + EnvFileInfo list" where
  "check_each f [] = Inr []"
| "check_each f ((src, dst) # rest) =
     (case (if existsSync f dst then getMissingVariables f src dst else Inr []) of
        Inl e \<Rightarrow> Inl e
      | Inr missingVars \<Rightarrow>
          (case check_each f rest of
             Inl e \<Rightarrow> Inl e
           | Inr infos \<Rightarrow>
               Inr (\<lparr>env_from = src, env_to = dst, env_exists = existsSync f dst,
                     env_missingVars = missingVars\<rparr> # infos)))"

definition checkEnvFiles :: "AvailableApps \<Rightarrow> fs \<Rightarrow> error + EnvFileInfo list" where
  "checkEnvFiles availableApps f = check_each f (envFiles availableApps)"

fun copyEnvFiles :: "EnvFileInfo list \<Rightarrow> world \<Rightarrow> (error + unit) \<times> world" where
  "copyEnvFiles [] w = (Inr (), w)"
| "copyEnvFiles (info # rest) w =
     (if env_exists info then
        copyEnvFiles rest
          (if env_missingVars info \<noteq> [] then
             emit (Logged (env_to info @ '' exists but missing variables: '' @
                           join_with '', '' (env_missingVars info))) w
           else w)
      else if existsSync (files w) (env_from info) then
        (case copyFileSync (env_from info) (env_to info) w of
           (Inl e, w') \<Rightarrow> (Inl e, w')
         | (Inr _, w') \<Rightarrow> copyEnvFiles rest w')
      else copyEnvFiles rest (emit (Logged (''File not found: '' @ env_from info)) w))"

subsection \<open>updateEnvFile\<close>

text \<open>
  \<^verbatim>\<open>new RegExp(`^${key}=.*$`, 'm')\<close> puts the key into the pattern as it is. For a key
  made of letters, digits and underscores the pattern matches the key literally; the
  model of \<^verbatim>\<open>updateEnvFile\<close> is the script's on such keys.
\<close>

definition regex_plain :: "string \<Rightarrow> bool" where
  "regex_plain key =
     list_all (\<lambda>c. c \<in> set ''ABCDEFGHIJKLMNOPQRSTUVWXYZabcdefghijklmnopqrstuvwxyz0123456789_'') key"

text \<open>The first match of \<^verbatim>\<open>^pat.*$\<close> with the \<^verbatim>\<open>m\<close> flag in \<open>s\<close>: what precedes the
  match, the match, and what follows it. \<open>bol\<close> says whether \<open>s\<close> begins at the start of
  a line: at the start of the text, or right after a line terminator.\<close>

fun find_line :: "string \<Rightarrow> bool \<Rightarrow> string \<Rightarrow> (string \<times> string \<times> string) option" where
  "find_line pat bol [] = (if bol \<and> pat = [] then Some ([], [], []) else None)"
| "find_line pat bol (c # cs) =
     (if (if bol then startsWith (c # cs) pat else False) then
        Some ([], takeWhile (\<lambda>x. \<not> is_line_terminator x) (c # cs),
              dropWhile (\<lambda>x. \<not> is_line_terminator x) (c # cs))
      else (case find_line pat (is_line_terminator c) cs of
              None \<Rightarrow> None
            | Some (pre, m, post) \<Rightarrow> Some (c # pre, m, post)))"

text \<open>The replacement text of \<^verbatim>\<open>String.prototype.replace\<close> for a pattern without groups:
  \<^verbatim>\<open>$$\<close> is a dollar, \<^verbatim>\<open>$&\<close> the match, \<^verbatim>\<open>$`\<close> what precedes it, \<^verbatim>\<open>$'\<close> what follows
  it; any other dollar stands for itself.\<close>

fun expand_replacement :: "string \<Rightarrow> string \<Rightarrow> string \<Rightarrow> string \<Rightarrow> string" where
  "expand_replacement pre m post [] = []"
| "expand_replacement pre m post [c] = [c]"
| "expand_replacement pre m post (c # d # r) =
     (if c = CHR ''$'' \<and> d = CHR ''$'' then CHR ''$'' # expand_replacement pre m post r
      else if c = CHR ''$'' \<and> d = CHR ''&'' then m @ expand_replacement pre m post r
      else if c = CHR ''$'' \<and> d = CHR 0x60 then pre @ expand_replacement pre m post r
      else if c = CHR ''$'' \<and> d = CHR 0x27 then post @ expand_replacement pre m post r
      else c # expand_replacement pre m post (d # r))"

text \<open>The body of the loop over \<^verbatim>\<open>Object.entries(replacements)\<close>, on the pair
  \<^verbatim>\<open>(content, updated)\<close>.\<close>

definition replace_step ::
  "bool \<Rightarrow> env_vars \<Rightarrow> string \<times> bool \<Rightarrow> string \<times> string \<Rightarrow> string \<times> bool" where
  "replace_step onlyMissing existingVars st kv =
     (case st of (content, updated) \<Rightarrow>
      case kv of (key, v) \<Rightarrow>
        if onlyMissing \<and> js_in key existingVars \<and> js_truthy_at existingVars key then
          (content, updated)
        else
          (case find_line (key @ ''='') True content of
             Some (pre, m, post) \<Rightarrow>
               (pre @ expand_replacement pre m post (key @ ''='' @ v) @ post, True)
           | None \<Rightarrow> (content @ [newline] @ key @ ''='' @ v, True)))"

text \<open>\<open>replacements\<close> is \<^verbatim>\<open>Object.entries(replacements)\<close>, in its order.\<close>

definition updateEnvFile ::
  "string \<Rightarrow> (string \<times> string) list \<Rightarrow> bool \<Rightarrow> world \<Rightarrow> (error + unit) \<times> world" where
  "updateEnvFile filePath replacements onlyMissing w =
     (if \<not> existsSync (files w) filePath then
        console_log (''File not found: '' @ filePath) w
      else
        (case readFileSync (files w) filePath of
           Inl e \<Rightarrow> (Inl e, w)
         | Inr content \<Rightarrow>
             (case parseEnvFile (files w) filePath of
                Inl e \<Rightarrow> (Inl e, w)
              | Inr existingVars \<Rightarrow>
                  (case foldl (replace_step onlyMissing existingVars) (content, False)
                          replacements of
                     (content', updated) \<Rightarrow>
                       if updated then writeFileSync filePath content' w
                       else (Inr (), w)))))"

subsection \<open>renameProjects\<close>

text \<open>Read a manifest, change its text, write it back; a text that \<^verbatim>\<open>JSON.parse\<close>
  refuses throws.\<close>

definition rewrite_manifest ::
  "string \<Rightarrow> (string \<Rightarrow> string option) \<Rightarrow> world \<Rightarrow> (error + unit) \<times> world" where
  "rewrite_manifest packagePath change w =
     (case readFileSync (files w) packagePath of
        Inl e \<Rightarrow> (Inl e, w)
      | Inr content \<Rightarrow>
          (case change content of
             None \<Rightarrow> (Inl (JsonError packagePath), w)
           | Some content' \<Rightarrow> writeFileSync packagePath content' w))"

definition updatePackageJsonName ::
  "outside \<Rightarrow> string \<Rightarrow> string \<Rightarrow> world \<Rightarrow> (error + unit) \<times> world" where
  "updatePackageJsonName u packagePath newName w =
     (if \<not> existsSync (files w) packagePath then (Inr (), w)
      else rewrite_manifest packagePath (\<lambda>content. set_name u content newName) w)"

definition updatePackageJsonDependencies ::
  "outside \<Rightarrow> string \<Rightarrow> string \<Rightarrow> string \<Rightarrow> world \<Rightarrow> (error + unit) \<times> world" where
  "updatePackageJsonDependencies u packagePath oldPrefix newPrefix w =
     (if \<not> existsSync (files w) packagePath then (Inr (), w)
      else rewrite_manifest packagePath (\<lambda>content. rename_deps u content oldPrefix newPrefix) w)"

text \<open>The two loops over \<^verbatim>\<open>appsToUpdate\<close> and \<^verbatim>\<open>packagesToUpdate\<close>.\<close>

fun rename_each ::
  "outside \<Rightarrow> string \<Rightarrow> string \<Rightarrow> (string \<times> string \<times> bool) list \<Rightarrow>
   world \<Rightarrow> (error + unit) \<times> world" where
  "rename_each u oldPrefix newPrefix [] w = (Inr (), w)"
| "rename_each u oldPrefix newPrefix ((path, name, condition) # rest) w =
     (if \<not> condition then rename_each u oldPrefix newPrefix rest w
      else
        (case updatePackageJsonName u path (newPrefix @ ''/'' @ name) w of
           (Inl e, w1) \<Rightarrow> (Inl e, w1)
         | (Inr _, w1) \<Rightarrow>
             (case updatePackageJsonDependencies u path oldPrefix newPrefix w1 of
                (Inl e, w2) \<Rightarrow> (Inl e, w2)
              | (Inr _, w2) \<Rightarrow> rename_each u oldPrefix newPrefix rest w2)))"

definition renameProjects ::
  "outside \<Rightarrow> string \<Rightarrow> AvailableApps \<Rightarrow> world \<Rightarrow> (error + unit) \<times> world" where
  "renameProjects u projectName availableApps =
     (let oldPrefix = ''@lonestone''; newPrefix = ''@'' @ projectName
      in and_then
           (\<lambda>w. if existsSync (files w) ''package.json'' then
                  rewrite_manifest ''package.json'' (\<lambda>content. set_name u content projectName) w
                else (Inr (), w))
           (\<lambda>_.
         and_then
           (rename_each u oldPrefix newPrefix
              [(''apps/api/package.json'', ''api'', api availableApps),
               (''apps/web-spa/package.json'', ''web-spa'', webSpa availableApps),
               (''apps/web-ssr/package.json'', ''web-ssr'', webSsr availableApps),
               (''apps/documentation/package.json'', ''documentation'', True)])
           (\<lambda>_.
         and_then
           (rename_each u oldPrefix newPrefix
              [(''packages/ui/package.json'', ''ui'', True),
               (''packages/openapi-generator/package.json'', ''openapi-generator'',
                openapiGenerator availableApps)])
           (\<lambda>_ w.
              (case runCommand u ''pnpm'' [''lint:fix''] w of
                 (Inl _, w') \<Rightarrow> console_log ''Linting failed, but continuing setup'' w'
               | (Inr _, w') \<Rightarrow> (Inr (), w'))))))"

subsection \<open>updateAllEnvFiles\<close>

text \<open>\<^verbatim>\<open>if (config.ports.x) { ... }\<close>: the block runs when the port is set and is
  neither \<open>0\<close> nor \<open>NaN\<close>; \<open>k\<close> is what the block adds.\<close>

definition if_port :: "jsnum option \<Rightarrow> (jsnum \<Rightarrow> 'a list) \<Rightarrow> 'a list" where
  "if_port p k = (case p of None \<Rightarrow> [] | Some n \<Rightarrow> if truthy n then k n else [])"

text \<open>\<^verbatim>\<open>`http://localhost:${port}`\<close>.\<close>

definition localhost_url :: "jsnum \<Rightarrow> string" where
  "localhost_url n = ''http://localhost:'' @ toString n"

text \<open>The array \<^verbatim>\<open>origins\<close> after the three pushes, and \<^verbatim>\<open>origins.join(',')\<close>.\<close>

definition origins :: "ports_config \<Rightarrow> string list" where
  "origins pc =
     if_port (api_port pc) (\<lambda>n. [localhost_url n]) @
     if_port (webSpa_port pc) (\<lambda>n. [localhost_url n]) @
     if_port (webSsr_port pc) (\<lambda>n. [localhost_url n])"

definition trustedOrigins :: "ports_config \<Rightarrow> string" where
  "trustedOrigins pc = join_with '','' (origins pc)"

definition rootUpdates :: "EnvConfig \<Rightarrow> (string \<times> string) list" where
  "rootUpdates config =
     [(''DATABASE_USER'', db_user (database config)),
      (''DATABASE_PASSWORD'', db_password (database config)),
      (''DATABASE_NAME'', db_name (database config)),
      (''DATABASE_PORT'', toString (db_port (database config))),
      (''SMTP_PORT'', toString (smtp_port (smtp config))),
      (''SMTP_PORT_WEB'', toString (smtp_portWeb (smtp config)))]"

text \<open>The object \<^verbatim>\<open>updates\<close> of the API block; \<open>apiPort\<close> is \<^verbatim>\<open>config.ports.api\<close>.\<close>

definition apiUpdates :: "EnvConfig \<Rightarrow> jsnum \<Rightarrow> (string \<times> string) list" where
  "apiUpdates config apiPort =
     [(''API_PORT'', toString apiPort),
      (''DATABASE_USER'', db_user (database config)),
      (''DATABASE_PASSWORD'', db_password (database config)),
      (''DATABASE_NAME'', db_name (database config)),
      (''DATABASE_HOST'', db_host (database config)),
      (''DATABASE_PORT'', toString (db_port (database config))),
      (''TRUSTED_ORIGINS'', trustedOrigins (ports config))] @
     if_port (webSpa_port (ports config)) (\<lambda>n. [(''CLIENTS_WEB_APP_URL'', localhost_url n)]) @
     if_port (webSsr_port (ports config)) (\<lambda>n. [(''CLIENTS_WEB_SSR_URL'', localhost_url n)])"

text \<open>\<^verbatim>\<open>if (availableApps.x && config.ports.api) { ... }\<close>.\<close>

definition when_api_port ::
  "bool \<Rightarrow> jsnum option \<Rightarrow> (jsnum \<Rightarrow> world \<Rightarrow> (error + unit) \<times> world) \<Rightarrow>
   world \<Rightarrow> (error + unit) \<times> world" where
  "when_api_port available p k w =
     (case p of
        None \<Rightarrow> (Inr (), w)
      | Some n \<Rightarrow> if available \<and> truthy n then k n w else (Inr (), w))"

definition updateAllEnvFiles ::
  "EnvConfig \<Rightarrow> AvailableApps \<Rightarrow> world \<Rightarrow> (error + unit) \<times> world" where
  "updateAllEnvFiles config availableApps =
     and_then (updateEnvFile ''.env'' (rootUpdates config) False)
       (\<lambda>_.
     and_then
       (when_api_port (api availableApps) (api_port (ports config))
          (\<lambda>n. updateEnvFile ''apps/api/.env'' (apiUpdates config n) False))
       (\<lambda>_.
     and_then
       (when_api_port (webSpa availableApps) (api_port (ports config))
          (\<lambda>n. updateEnvFile ''apps/web-spa/.env'' [(''VITE_API_URL'', localhost_url n)] False))
       (\<lambda>_.
     and_then
       (when_api_port (webSsr availableApps) (api_port (ports config))
          (\<lambda>n. updateEnvFile ''apps/web-ssr/.env'' [(''API_URL'', localhost_url n)] False))
       (\<lambda>_.
     when_api_port (openapiGenerator availableApps) (api_port (ports config))
       (\<lambda>n. updateEnvFile ''packages/openapi-generator/.env''
              [(''API_URL'', localhost_url n)] False)))))"

subsection \<open>main\<close>

text \<open>
  The first part of \<^verbatim>\<open>main\<close>, from the detection to the write-back: everything in it
  that throws reaches the outer \<^verbatim>\<open>catch\<close>.
\<close>

definition reconcile ::
  "outside \<Rightarrow> world \<Rightarrow> (error + AvailableApps \<times> EnvConfig) \<times> world" where
  "reconcile u =
     and_then (reading detectAvailableApps)
       (\<lambda>availableApps.
     and_then (reading (checkEnvFiles availableApps))
       (\<lambda>envFilesInfo.
     and_then (prompt u ''Project name'' ''my-project'')
       (\<lambda>projectName.
     and_then (renameProjects u projectName availableApps)
       (\<lambda>_.
     and_then (promptDatabaseConfig u)
       (\<lambda>databaseConfig.
     and_then (promptPortsConfig u availableApps)
       (\<lambda>portsConfig.
     and_then (promptSmtpConfig u)
       (\<lambda>smtpConfig.
     and_then (copyEnvFiles envFilesInfo)
       (\<lambda>_.
     and_then
       (updateAllEnvFiles
          \<lparr>database = databaseConfig, ports = portsConfig, smtp = smtpConfig\<rparr> availableApps)
       (\<lambda>_.
     and_then (console_log ''Setup completed successfully!'')
       (\<lambda>_.
     return (availableApps,
             \<lparr>database = databaseConfig, ports = portsConfig, smtp = smtpConfig\<rparr>)))))))))))"

definition migrate_command :: string where
  "migrate_command = ''pnpm --filter=api db:migrate:up''"

text \<open>
  Inside the \<^verbatim>\<open>try\<close> of the Docker step, after \<^verbatim>\<open>dockerStarted = true\<close>: the wait for
  the database and the migration step. The migration command has a \<^verbatim>\<open>try\<close> of its own;
  a prompt that rejects leaves this block for the \<^verbatim>\<open>catch\<close> of the Docker step.
\<close>

definition migration_step ::
  "outside \<Rightarrow> AvailableApps \<Rightarrow> world \<Rightarrow> (error + unit) \<times> world" where
  "migration_step u availableApps =
     and_then (waitForDatabase u 30 1000)
       (\<lambda>dbReady.
          if dbReady \<and> api availableApps then
            and_then (confirm u ''Run database migrations?'')
              (\<lambda>shouldRunMigrations w.
                 if shouldRunMigrations then
                   (case runCommand u ''pnpm'' [''--filter=api'', ''db:migrate:up''] w of
                      (Inr _, w') \<Rightarrow> console_log ''Migrations completed successfully'' w'
                    | (Inl e, w') \<Rightarrow>
                        and_then (console_log ''Migration failed:'')
                          (\<lambda>_. console_log
                                 (''You can run migrations manually later with: '' @
                                  migrate_command)) w')
                 else
                   console_log (''Skipped migrations. Run manually with: '' @ migrate_command) w)
          else if \<not> dbReady \<and> api availableApps then
            console_log (''Database not ready. Run migrations manually with: '' @ migrate_command)
          else return ())"

text \<open>The Docker step; the result is \<^verbatim>\<open>dockerStarted\<close>. Only the prompt of the step is
  outside its \<^verbatim>\<open>try\<close>.\<close>

definition docker_step ::
  "outside \<Rightarrow> AvailableApps \<Rightarrow> world \<Rightarrow> (error + bool) \<times> world" where
  "docker_step u availableApps =
     and_then (confirm u ''Start Docker services (database, maildev)?'')
       (\<lambda>shouldStartDocker w.
          if shouldStartDocker then
            (case runCommand u ''pnpm'' [''docker:up''] w of
               (Inl e, w1) \<Rightarrow>
                 (Inr False,
                  emit (Logged ''You can start Docker manually with: pnpm docker:up'')
                    (emit (Logged ''Failed to start Docker:'') w1))
             | (Inr _, w1) \<Rightarrow>
                 (case migration_step u availableApps
                         (emit (Logged ''Docker services started'') w1) of
                    (Inl e, w2) \<Rightarrow>
                      (Inr True,
                       emit (Logged ''You can start Docker manually with: pnpm docker:up'')
                         (emit (Logged ''Failed to start Docker:'') w2))
                  | (Inr _, w2) \<Rightarrow> (Inr True, w2)))
          else
            (Inr False,
             (if api availableApps then
                emit (Logged (''Migrations skipped (requires Docker). Run with: '' @
                              migrate_command))
              else (\<lambda>w'. w'))
               (emit (Logged ''Skipped Docker. Start manually with: pnpm docker:up'') w)))"

text \<open>The lines after \<^verbatim>\<open>Next steps:\<close>.\<close>

definition next_steps :: "bool \<Rightarrow> AvailableApps \<Rightarrow> world \<Rightarrow> world" where
  "next_steps dockerStarted availableApps w =
     (let w1 = emit (Logged ''Setup complete!'') w;
          w2 = (if \<not> dockerStarted then
                  (let w' = emit (Logged ''1. Start Docker services: pnpm docker:up'') w1
                   in if api availableApps then
                        emit (Logged (''2. Run migrations: '' @ migrate_command)) w'
                      else w')
                else w1);
          step = (if dockerStarted then 1 else if api availableApps then 3 else 2)
      in emit (Logged (toString (Num step) @ ''. Start development: pnpm dev'')) w2)"

text \<open>The body of the \<^verbatim>\<open>try\<close> of \<^verbatim>\<open>main\<close>.\<close>

definition main_body :: "outside \<Rightarrow> world \<Rightarrow> (error + unit) \<times> world" where
  "main_body u =
     and_then (reconcile u)
       (\<lambda>(availableApps, config).
     and_then (docker_step u availableApps)
       (\<lambda>dockerStarted w. (Inr (), next_steps dockerStarted availableApps w)))"

text \<open>
  \<^verbatim>\<open>main\<close>: the exit code of the process and the state it leaves. The \<^verbatim>\<open>catch\<close> of
  \<^verbatim>\<open>main\<close> prints the error and calls \<^verbatim>\<open>process.exit(1)\<close>; when the body returns, the
  process ends with code \<open>0\<close>.
\<close>

definition main :: "outside \<Rightarrow> world \<Rightarrow> int \<times> world" where
  "main u w =
     (case main_body u w of
        (Inl e, w') \<Rightarrow> (1, emit (Logged ''Error during setup:'') w')
      | (Inr _, w') \<Rightarrow> (0, w'))"

section \<open>Observations, the spec's own definitions, and the inputs of the examples\<close>

text \<open>The number of readiness probes launched, and the time slept, in a trace.\<close>

definition probes :: "event list \<Rightarrow> nat" where
  "probes t = length (filter (\<lambda>e. e = Probed) t)"

definition slept :: "event list \<Rightarrow> int" where
  "slept t = sum_list (map (\<lambda>e. case e of Slept ms \<Rightarrow> ms | _ \<Rightarrow> 0) t)"

text \<open>The condition under which the loop of \<^verbatim>\<open>updateEnvFile\<close> passes over a key:
  \<^verbatim>\<open>onlyMissing && key in existingVars && existingVars[key]\<close>.\<close>

definition skips :: "bool \<Rightarrow> env_vars \<Rightarrow> string \<Rightarrow> bool" where
  "skips onlyMissing existingVars key =
     (onlyMissing \<and> js_in key existingVars \<and> js_truthy_at existingVars key)"

text \<open>The file's map holds the key with a value that is not empty.\<close>

definition holds_value :: "env_vars \<Rightarrow> string \<Rightarrow> bool" where
  "holds_value vars key = (case map_of vars key of Some v \<Rightarrow> v \<noteq> [] | None \<Rightarrow> False)"

text \<open>A root directory on which the detection does not throw: it is absent, or it is a
  directory that can be listed and each of whose entries can be examined.\<close>

definition root_listable :: "fs \<Rightarrow> string \<Rightarrow> bool" where
  "root_listable f dir =
     (case map_of f dir of
        None \<Rightarrow> True
      | Some (Dir names) \<Rightarrow> list_all (\<lambda>item. map_of f (join_path dir item) \<noteq> None) names
      | Some _ \<Rightarrow> False)"

text \<open>\<open>dir\<close> is a directory that lists \<open>item\<close>, and \<open>item\<close> is a directory.\<close>

definition has_subdirectory :: "fs \<Rightarrow> string \<Rightarrow> string \<Rightarrow> bool" where
  "has_subdirectory f dir item =
     (case map_of f dir of
        Some (Dir names) \<Rightarrow> item \<in> set names \<and> stat_isDirectory f (join_path dir item) = Inr True
      | _ \<Rightarrow> False)"



text \<open>An outside where no child process can be launched: \<^verbatim>\<open>spawn\<close> throws or the
  \<^verbatim>\<open>error\<close> event fires. The user accepts every initial value and declines every
  confirmation.\<close>

definition never_launches :: outside where
  "never_launches =
     \<lparr>answer = (\<lambda>m i. Some i), agree = (\<lambda>m. Some False),
      command = (\<lambda>c a. ErrorEvent), probe = (\<lambda>i. if even i then Threw else ErrorEvent),
      set_name = (\<lambda>c n. None), rename_deps = (\<lambda>c a b. None)\<rparr>"

text \<open>A user who accepts every initial value and declines the optional steps; every
  command succeeds.\<close>

definition accepts_defaults :: outside where
  "accepts_defaults =
     \<lparr>answer = (\<lambda>m i. Some i), agree = (\<lambda>m. Some False),
      command = (\<lambda>c a. Closed (Some 0)), probe = (\<lambda>i. Closed (Some 0)),
      set_name = (\<lambda>c n. None), rename_deps = (\<lambda>c a b. None)\<rparr>"

text \<open>A workspace with one frontend whose target file sets \<^verbatim>\<open>VITE_PORT\<close> and leaves
  \<^verbatim>\<open>VITE_API_URL\<close> empty, as its template does.\<close>

definition frontend_files :: fs where
  "frontend_files =
     [(''apps'', Dir [''web-spa'']),
      (''apps/web-spa'', Dir []),
      (''apps/web-spa/.env.example'', File ''VITE_PORT=5173\<newline>VITE_API_URL=''),
      (''apps/web-spa/.env'', File ''VITE_PORT=5173\<newline>VITE_API_URL='')]"


text \<open>A target file in which the key \<^verbatim>\<open>A\<close> already holds the value \<^verbatim>\<open>1\<close>.\<close>

definition same_value_world :: world where
  "same_value_world = \<lparr>files = [(''.env'', File ''A=1'')], trace = []\<rparr>"

text \<open>A freshly cloned workspace with a backend: the root template declares the
  database host, the backend's template its port; no target file exists yet. The user
  types a database host of their own and accepts every other initial value.\<close>

definition drift_files :: fs where
  "drift_files =
     [(''apps'', Dir [''api'']),
      (''apps/api'', Dir []),
      (''.env.example'', File ''DATABASE_HOST=localhost''),
      (''apps/api/.env.example'', File ''API_PORT=3000'')]"

definition drift_user :: outside where
  "drift_user =
     \<lparr>answer = (\<lambda>m i. if m = ''Database host'' then Some ''db.internal'' else Some i),
      agree = (\<lambda>m. Some False),
      command = (\<lambda>c a. Closed (Some 0)), probe = (\<lambda>i. Closed (Some 0)),
      set_name = (\<lambda>c n. None), rename_deps = (\<lambda>c a b. None)\<rparr>"

definition drift_root_env :: string where
  "drift_root_env =
     ''DATABASE_HOST=localhost\<newline>DATABASE_USER=postgres\<newline>DATABASE_PASSWORD=postgres\<newline>DATABASE_NAME=lonestone_test\<newline>DATABASE_PORT=5111\<newline>SMTP_PORT=1025\<newline>SMTP_PORT_WEB=1080''"

text \<open>The files after the first run and after the second.\<close>

definition drift_after_first :: fs where
  "drift_after_first =
     drift_files @
     [(''.env'', File drift_root_env),
      (''apps/api/.env'', File
         ''API_PORT=3000\<newline>DATABASE_USER=postgres\<newline>DATABASE_PASSWORD=postgres\<newline>DATABASE_NAME=lonestone_test\<newline>DATABASE_HOST=db.internal\<newline>DATABASE_PORT=5111\<newline>TRUSTED_ORIGINS=http://localhost:3000'')]"

definition drift_after_second :: fs where
  "drift_after_second =
     drift_files @
     [(''.env'', File drift_root_env),
      (''apps/api/.env'', File
         ''API_PORT=3000\<newline>DATABASE_USER=postgres\<newline>DATABASE_PASSWORD=postgres\<newline>DATABASE_NAME=lonestone_test\<newline>DATABASE_HOST=localhost\<newline>DATABASE_PORT=5111\<newline>TRUSTED_ORIGINS=http://localhost:3000'')]"

definition drift_config :: "string \<Rightarrow> EnvConfig" where
  "drift_config host =
     \<lparr>database = \<lparr>db_user = ''postgres'', db_password = ''postgres'',
                   db_name = ''lonestone_test'', db_host = host, db_port = Num 5111\<rparr>,
      ports = \<lparr>api_port = Some (Num 3000), webSpa_port = None, webSsr_port = None\<rparr>,
      smtp = \<lparr>smtp_port = Num 1025, smtp_portWeb = Num 1080\<rparr>\<rparr>"

text \<open>A workspace with directories that are subprojects, one that is not, and a file.\<close>

definition layout_files :: fs where
  "layout_files =
     [(''apps'', Dir [''api'', ''web-spa'', ''README.md'']),
      (''apps/api'', Dir [''package.json'']),
      (''apps/web-spa'', Dir []),
      (''apps/README.md'', File ''docs'')]"

text \<open>The target file of the merge example.\<close>

definition merge_example_world :: world where
  "merge_example_world =
     \<lparr>files = [(''apps/api/.env'', File ''# comment\<newline>A=1\<newline>B=old'')], trace = []\<rparr>"

text \<open>A user who accepts every step, a database that is ready at the third probe, and a
  migration command that exits with code \<open>1\<close>; a workspace with a backend only.\<close>

definition migration_fails :: outside where
  "migration_fails =
     \<lparr>answer = (\<lambda>m i. Some i), agree = (\<lambda>m. Some True),
      command = (\<lambda>c a. if a = [''--filter=api'', ''db:migrate:up''] then Closed (Some 1)
                        else Closed (Some 0)),
      probe = (\<lambda>i. if i = 2 then Closed (Some 0) else Closed (Some 2)),
      set_name = (\<lambda>c n. None), rename_deps = (\<lambda>c a b. None)\<rparr>"

definition backend_only :: world where
  "backend_only = \<lparr>files = [(''apps'', Dir [''api'']), (''apps/api'', Dir [])], trace = []\<rparr>"

section \<open>Properties\<close>

subsection \<open>Prompts for variables that are already set\<close>

text \<open>
  Claim C1. A key that a target file holds with a non-empty value at the start of a run
  is never asked for. The script breaks this for the frontend ports: it asks for the web
  SPA port whenever the frontend's target file lacks any variable of its template, also
  when \<^verbatim>\<open>VITE_PORT\<close>, whose value it offers as the initial answer, is set. In the
  workspace below the target file holds \<^verbatim>\<open>VITE_PORT=5173\<close>; the run asks
  \<^verbatim>\<open>Web SPA port\<close> and leaves every file as it was, so each later run asks again.
\<close>

theorem frontend_port_asked_although_set:
  "map_of (parseEnvText ''VITE_PORT=5173\<newline>VITE_API_URL='') ''VITE_PORT'' = Some ''5173'' \<and>
   reconcile accepts_defaults \<lparr>files = frontend_files, trace = []\<rparr> =
     (Inr (\<lparr>api = False, webSpa = True, webSsr = False, openapiGenerator = False\<rparr>,
           \<lparr>database = \<lparr>db_user = ''postgres'', db_password = ''postgres'',
                         db_name = ''lonestone_test'', db_host = ''localhost'',
                         db_port = Num 5111\<rparr>,
            ports = \<lparr>api_port = None, webSpa_port = Some (Num 5173), webSsr_port = None\<rparr>,
            smtp = \<lparr>smtp_port = Num 1025, smtp_portWeb = Num 1080\<rparr>\<rparr>),
      \<lparr>files = frontend_files,
        trace = [Asked ''Project name'' ''my-project'',
                 Ran ''pnpm'' [''lint:fix''],
                 Asked ''Web SPA port'' ''5173'',
                 Logged ''File not found: .env.example'',
                 Logged ''apps/web-spa/.env exists but missing variables: VITE_API_URL'',
                 Logged ''File not found: .env'',
                 Logged ''Setup completed successfully!'']\<rparr>)"
  by code_simp

subsection \<open>The write-back of one file\<close>

lemma replace_step_skip: "skips om ex (fst kv) \<Longrightarrow> replace_step om ex st kv = st"
  by (cases st; cases kv) (simp add: replace_step_def skips_def)

lemma replace_step_apply: "\<not> skips om ex (fst kv) \<Longrightarrow> snd (replace_step om ex st kv) = True"
  by (cases st; cases kv) (auto simp: replace_step_def skips_def split: option.splits)

lemma replace_step_keeps: "snd st \<Longrightarrow> snd (replace_step om ex st kv)"
  by (cases st; cases kv) (auto simp: replace_step_def split: option.splits)

lemma fold_all_skipped:
  "list_all (\<lambda>kv. skips om ex (fst kv)) rs \<Longrightarrow> foldl (replace_step om ex) st rs = st"
  by (induction rs arbitrary: st) (simp_all add: replace_step_skip)

lemma fold_keeps: "snd st \<Longrightarrow> snd (foldl (replace_step om ex) st rs)"
  by (induction rs arbitrary: st) (simp_all add: replace_step_keeps)

lemma fold_some_applied:
  "\<not> list_all (\<lambda>kv. skips om ex (fst kv)) rs \<Longrightarrow> snd (foldl (replace_step om ex) st rs)"
proof (induction rs arbitrary: st)
  case Nil
  then show ?case by simp
next
  case (Cons kv rs)
  show ?case
  proof (cases "skips om ex (fst kv)")
    case True
    with Cons show ?thesis by (simp add: replace_step_skip)
  next
    case False
    then have "snd (replace_step om ex st kv)" by (simp add: replace_step_apply)
    then show ?thesis by (simp add: fold_keeps)
  qed
qed

text \<open>
  Claim C2, as stated: when every key of the updates already holds the supplied value,
  the file is not rewritten. It fails: writing \<^verbatim>\<open>{A: "1"}\<close> into a file that is \<^verbatim>\<open>A=1\<close>
  calls \<^verbatim>\<open>writeFileSync\<close>, with the same bytes.
\<close>

theorem updateEnvFile_unchanged_value_counterexample:
  "map_of (parseEnvText ''A=1'') ''A'' = Some ''1'' \<and>
   updateEnvFile ''.env'' [(''A'', ''1'')] False same_value_world =
     (Inr (), \<lparr>files = [(''.env'', File ''A=1'')], trace = [Wrote ''.env'']\<rparr>)"
  by code_simp

text \<open>A key that names no member of \<^verbatim>\<open>Object.prototype\<close> is passed over exactly when
  \<^verbatim>\<open>onlyMissing\<close> is set and the file holds it with a value that is not empty.\<close>

lemma skips_own:
  "key \<notin> set object_prototype_names \<Longrightarrow> skips om ex key = (om \<and> holds_value ex key)"
  by (auto simp: skips_def holds_value_def js_in_def js_truthy_at_def
      split: option.splits dest: map_of_SomeD intro: rev_image_eqI)

lemma all_skipped_own:
  "list_all (\<lambda>kv. regex_plain (fst kv) \<and> fst kv \<notin> set object_prototype_names) rs \<Longrightarrow>
   list_all (\<lambda>kv. skips om ex (fst kv)) rs = list_all (\<lambda>kv. om \<and> holds_value ex (fst kv)) rs"
  by (induction rs) (simp_all add: skips_own)

text \<open>
  Claim C2, amended. Take a target file that exists and can be read and written, and
  updates whose keys are made of letters, digits and underscores and name no member of
  \<^verbatim>\<open>Object.prototype\<close>. Then \<^verbatim>\<open>updateEnvFile\<close> leaves the file untouched exactly when it
  passes over every key of the updates: there is none, or \<^verbatim>\<open>onlyMissing\<close> is set and
  each key already has a non-empty value in the file. As soon as one key is applied the
  file is rewritten, once, whether or not its text changed.
\<close>

theorem updateEnvFile_rewrites_iff_applied:
  assumes "map_of (files w) p = Some (File content)"
      and "list_all (\<lambda>kv. regex_plain (fst kv) \<and> fst kv \<notin> set object_prototype_names) updates"
  shows "if list_all (\<lambda>kv. onlyMissing \<and> holds_value (parseEnvText content) (fst kv)) updates
         then updateEnvFile p updates onlyMissing w = (Inr (), w)
         else fst (updateEnvFile p updates onlyMissing w) = Inr () \<and>
              trace (snd (updateEnvFile p updates onlyMissing w)) = trace w @ [Wrote p]"
proof (cases "list_all (\<lambda>kv. skips onlyMissing (parseEnvText content) (fst kv)) updates")
  case True
  then show ?thesis
    using assms(1) all_skipped_own [OF assms(2), of onlyMissing "parseEnvText content"]
    by (simp add: updateEnvFile_def existsSync_def readFileSync_def parseEnvFile_def
        fold_all_skipped)
next
  case False
  obtain c' where c':
    "foldl (replace_step onlyMissing (parseEnvText content)) (content, False) updates = (c', True)"
    using fold_some_applied [OF False, of "(content, False)"]
    by (cases "foldl (replace_step onlyMissing (parseEnvText content)) (content, False) updates")
       simp
  show ?thesis
    using False assms(1) all_skipped_own [OF assms(2), of onlyMissing "parseEnvText content"]
    by (simp add: updateEnvFile_def existsSync_def readFileSync_def parseEnvFile_def c'
        writeFileSync_def emit_def)
qed

text \<open>With \<^verbatim>\<open>onlyMissing\<close> unset the file \<^verbatim>\<open>A=1\<close> is rewritten for \<^verbatim>\<open>{A: "1"}\<close>; with
  \<^verbatim>\<open>onlyMissing\<close> set it is left as it is.\<close>

theorem updateEnvFile_rewrites_iff_applied_witness:
  "trace (snd (updateEnvFile ''.env'' [(''A'', ''1'')] False same_value_world)) = [Wrote ''.env''] \<and>
   updateEnvFile ''.env'' [(''A'', ''1'')] True same_value_world = (Inr (), same_value_world)"
proof -
  have f: "map_of (files same_value_world) ''.env'' = Some (File ''A=1'')"
    by (simp add: same_value_world_def)
  have p: "list_all (\<lambda>kv. regex_plain (fst kv) \<and> fst kv \<notin> set object_prototype_names)
             [(''A'', ''1'')]"
    by code_simp
  have h: "holds_value (parseEnvText ''A=1'') ''A''"
    by code_simp
  from updateEnvFile_rewrites_iff_applied [OF f p, of False]
       updateEnvFile_rewrites_iff_applied [OF f p, of True] h
  show ?thesis by (simp add: same_value_world_def)
qed

lemma replace_B:
  "foldl (replace_step False (parseEnvText ''# comment\<newline>A=1\<newline>B=old''))
     (''# comment\<newline>A=1\<newline>B=old'', False) [(''B'', ''2'')]
   = (''# comment\<newline>A=1\<newline>B=2'', True)"
  by code_simp

text \<open>
  Claim C6. Writing the single update \<^verbatim>\<open>{"B": "2"}\<close> (with \<^verbatim>\<open>onlyMissing\<close> unset, as the
  script always calls \<^verbatim>\<open>updateEnvFile\<close>) into a target file whose lines are
  \<^verbatim>\<open># comment\<close>, \<^verbatim>\<open>A=1\<close>, \<^verbatim>\<open>B=old\<close> rewrites the file with exactly the lines
  \<^verbatim>\<open># comment\<close>, \<^verbatim>\<open>A=1\<close>, \<^verbatim>\<open>B=2\<close>: the comment and \<^verbatim>\<open>A\<close> are untouched, \<^verbatim>\<open>B\<close> is
  replaced on its line and nothing is appended. Nothing else in the file system changes.
\<close>

theorem updateEnvFile_merge_example:
  assumes "map_of (files w) p = Some (File ''# comment\<newline>A=1\<newline>B=old'')"
  shows "updateEnvFile p [(''B'', ''2'')] False w =
           (Inr (), emit (Wrote p)
                      (w\<lparr>files := AList.update p (File ''# comment\<newline>A=1\<newline>B=2'') (files w)\<rparr>)) \<and>
         split_on newline ''# comment\<newline>A=1\<newline>B=2'' = [''# comment'', ''A=1'', ''B=2'']"
proof
  show "updateEnvFile p [(''B'', ''2'')] False w =
           (Inr (), emit (Wrote p)
                      (w\<lparr>files := AList.update p (File ''# comment\<newline>A=1\<newline>B=2'') (files w)\<rparr>))"
    using assms
    by (simp add: updateEnvFile_def existsSync_def readFileSync_def parseEnvFile_def
        replace_B writeFileSync_def del: foldl.simps)
  show "split_on newline ''# comment\<newline>A=1\<newline>B=2'' = [''# comment'', ''A=1'', ''B=2'']"
    by code_simp
qed

theorem updateEnvFile_merge_example_witness:
  "updateEnvFile ''apps/api/.env'' [(''B'', ''2'')] False merge_example_world =
     (Inr (), \<lparr>files = [(''apps/api/.env'', File ''# comment\<newline>A=1\<newline>B=2'')],
               trace = [Wrote ''apps/api/.env'']\<rparr>)"
proof -
  have "map_of (files merge_example_world) ''apps/api/.env'' =
          Some (File ''# comment\<newline>A=1\<newline>B=old'')"
    by (simp add: merge_example_world_def)
  from updateEnvFile_merge_example [OF this]
  show ?thesis by (simp add: emit_def merge_example_world_def)
qed

subsection \<open>Two runs in succession\<close>

lemma drift_first_run:
  "reconcile drift_user \<lparr>files = drift_files, trace = []\<rparr> =
     (Inr (\<lparr>api = True, webSpa = False, webSsr = False, openapiGenerator = False\<rparr>,
           drift_config ''db.internal''),
      \<lparr>files = drift_after_first,
        trace = [Asked ''Project name'' ''my-project'',
                 Ran ''pnpm'' [''lint:fix''],
                 Asked ''Database host'' ''localhost'',
                 Asked ''API port'' ''3000'',
                 Copied ''.env.example'' ''.env'',
                 Copied ''apps/api/.env.example'' ''apps/api/.env'',
                 Wrote ''.env'',
                 Wrote ''apps/api/.env'',
                 Logged ''Setup completed successfully!'']\<rparr>)"
  by code_simp

lemma drift_second_run:
  "reconcile drift_user \<lparr>files = drift_after_first, trace = []\<rparr> =
     (Inr (\<lparr>api = True, webSpa = False, webSsr = False, openapiGenerator = False\<rparr>,
           drift_config ''localhost''),
      \<lparr>files = drift_after_second,
        trace = [Asked ''Project name'' ''my-project'',
                 Ran ''pnpm'' [''lint:fix''],
                 Wrote ''.env'',
                 Wrote ''apps/api/.env'',
                 Logged ''Setup completed successfully!'']\<rparr>)"
  by code_simp

lemma drift_differs:
  "map_of drift_after_first ''apps/api/.env'' \<noteq> map_of drift_after_second ''apps/api/.env''"
  by code_simp

text \<open>
  Claim C3. Two runs in succession, with the same answers, leave the same target files.
  The script breaks this: the database host is asked on the first run and written to the
  backend's file, but not to the root file, from which the second run reads it back.
  In the workspace below the user types \<^verbatim>\<open>db.internal\<close>; after the first run the
  backend's file holds \<^verbatim>\<open>DATABASE_HOST=db.internal\<close>, after the second
  \<^verbatim>\<open>DATABASE_HOST=localhost\<close>.
\<close>

theorem second_run_changes_target_file:
  "files (snd (reconcile drift_user \<lparr>files = drift_files, trace = []\<rparr>)) = drift_after_first \<and>
   files (snd (reconcile drift_user \<lparr>files = drift_after_first, trace = []\<rparr>)) = drift_after_second \<and>
   map_of drift_after_first ''apps/api/.env'' \<noteq> map_of drift_after_second ''apps/api/.env''"
  by (simp add: drift_first_run drift_second_run drift_differs)

subsection \<open>The detection of subprojects\<close>

lemma keep_directories_ok:
  "list_all (\<lambda>item. map_of f (join_path dir item) \<noteq> None) names \<Longrightarrow>
   keep_directories f dir names =
     Inr (filter (\<lambda>item. stat_isDirectory f (join_path dir item) = Inr True) names)"
proof (induction names)
  case Nil
  then show ?case by simp
next
  case (Cons item names)
  then obtain n where n: "map_of f (join_path dir item) = Some n" by auto
  obtain d where d: "stat_isDirectory f (join_path dir item) = Inr d"
    using n by (cases n) (auto simp: stat_isDirectory_def)
  from Cons show ?case by (simp add: d)
qed

lemma absent_not_exists: "map_of f dir = None \<Longrightarrow> existsSync f dir = False"
  by (simp add: existsSync_def)

lemma list_directories_ok:
  "map_of f dir = Some (Dir names) \<Longrightarrow> root_listable f dir \<Longrightarrow>
   existsSync f dir \<and>
   (\<exists>ds. list_directories f dir = Inr ds \<and>
         (\<forall>item. item \<in> set ds \<longleftrightarrow> has_subdirectory f dir item))"
  by (auto simp: existsSync_def list_directories_def readdirSync_def root_listable_def
      has_subdirectory_def keep_directories_ok)

lemma root_cases:
  "root_listable f dir \<Longrightarrow> map_of f dir = None \<or> (\<exists>names. map_of f dir = Some (Dir names))"
  by (auto simp: root_listable_def split: option.splits node.splits)

lemma has_subdirectory_absent: "map_of f dir = None \<Longrightarrow> has_subdirectory f dir item = False"
  by (simp add: has_subdirectory_def)

text \<open>
  Claim C4, as stated: the detection returns for every state of the file system. It
  fails: an applications root that exists but cannot be listed makes \<^verbatim>\<open>readdirSync\<close>
  throw, an entry that cannot be examined makes \<^verbatim>\<open>statSync\<close> throw, and \<^verbatim>\<open>main\<close> then
  exits with code \<open>1\<close>.
\<close>

theorem detectAvailableApps_unreadable_counterexample:
  "detectAvailableApps [(''apps'', Denied True)] = Inl (FsError ''apps'') \<and>
   detectAvailableApps [(''apps'', Dir [''api''])] = Inl (FsError ''apps/api'') \<and>
   fst (main accepts_defaults \<lparr>files = [(''apps'', Denied True)], trace = []\<rparr>) = 1"
  by code_simp

text \<open>
  Claim C4, amended. When each of the two roots is absent, or is a directory that can be
  listed and whose entries can all be examined, the detection returns: a flag is true
  exactly when its root lists the conventional name and that entry is a directory, so an
  absent root gives false flags.
\<close>

theorem detectAvailableApps_succeeds:
  assumes "root_listable f ''apps''" and "root_listable f ''packages''"
  shows "detectAvailableApps f =
           Inr \<lparr>api = has_subdirectory f ''apps'' ''api'',
                webSpa = has_subdirectory f ''apps'' ''web-spa'',
                webSsr = has_subdirectory f ''apps'' ''web-ssr'',
                openapiGenerator = has_subdirectory f ''packages'' ''openapi-generator''\<rparr>"
proof -
  from root_cases [OF assms(1)] root_cases [OF assms(2)]
  show ?thesis
  proof (elim disjE exE)
    assume a: "map_of f ''apps'' = None" and b: "map_of f ''packages'' = None"
    then show ?thesis
      by (simp add: detectAvailableApps_def existsSync_def has_subdirectory_absent)
  next
    fix names
    assume a: "map_of f ''apps'' = None" and b: "map_of f ''packages'' = Some (Dir names)"
    from list_directories_ok [OF b assms(2)] a show ?thesis
      by (auto simp: detectAvailableApps_def absent_not_exists has_subdirectory_absent)
  next
    fix names
    assume a: "map_of f ''apps'' = Some (Dir names)" and b: "map_of f ''packages'' = None"
    from list_directories_ok [OF a assms(1)] b show ?thesis
      by (auto simp: detectAvailableApps_def absent_not_exists has_subdirectory_absent)
  next
    fix names names'
    assume a: "map_of f ''apps'' = Some (Dir names)"
       and b: "map_of f ''packages'' = Some (Dir names')"
    from list_directories_ok [OF a assms(1)] list_directories_ok [OF b assms(2)] show ?thesis
      by (auto simp: detectAvailableApps_def)
  qed
qed

text \<open>A workspace without a packages directory: its flag is false, and a file in the
  applications directory is not a subproject.\<close>

theorem detectAvailableApps_succeeds_witness:
  "detectAvailableApps layout_files =
     Inr \<lparr>api = True, webSpa = True, webSsr = False, openapiGenerator = False\<rparr>"
proof -
  have a: "root_listable layout_files ''apps''" by code_simp
  have b: "root_listable layout_files ''packages''" by code_simp
  have "has_subdirectory layout_files ''apps'' ''api'' = True"
       "has_subdirectory layout_files ''apps'' ''web-spa'' = True"
       "has_subdirectory layout_files ''apps'' ''web-ssr'' = False"
       "has_subdirectory layout_files ''packages'' ''openapi-generator'' = False"
    by code_simp+
  with detectAvailableApps_succeeds [OF a b] show ?thesis by simp
qed

subsection \<open>The missing variables of an absent target\<close>



subsection \<open>The trusted origins\<close>










subsection \<open>The readiness wait\<close>

lemma probes_emit: "probes (trace (emit e w)) = probes (trace w) + (if e = Probed then 1 else 0)"
  by (simp add: probes_def emit_def)

lemma slept_emit:
  "slept (trace (emit e w)) = slept (trace w) + (case e of Slept ms \<Rightarrow> ms | _ \<Rightarrow> 0)"
  by (simp add: slept_def emit_def)

lemma not_ready_exitCode: "out \<noteq> Closed (Some 0) \<Longrightarrow> probe_exitCode out \<noteq> Inr 0"
  by (auto simp: probe_exitCode_def split: proc_outcome.splits option.splits)

text \<open>From any value of the counter, a probe that is never ready makes the loop run to
  its bound: one probe and one sleep for each remaining attempt.\<close>

lemma waitLoop_never_ready:
  "i \<le> maxRetries \<Longrightarrow> (\<And>j. pr j \<noteq> Closed (Some 0)) \<Longrightarrow>
   fst (waitLoop pr maxRetries delayMs i w) = Inr False \<and>
   int (probes (trace (snd (waitLoop pr maxRetries delayMs i w)))) =
     int (probes (trace w)) + (maxRetries - i) \<and>
   slept (trace (snd (waitLoop pr maxRetries delayMs i w))) =
     slept (trace w) + (maxRetries - i) * delayMs"
proof (induction pr maxRetries delayMs i w rule: waitLoop.induct)
  case (1 pr maxRetries delayMs i w)
  show ?case
  proof (cases "i < maxRetries")
    case False
    with "1.prems" have "i = maxRetries" by simp
    then show ?thesis
      by (simp add: waitLoop.simps [of pr maxRetries delayMs maxRetries w] probes_emit slept_emit)
  next
    case True
    let ?w' = "emit (Slept delayMs) (emit Probed w)"
    have nz: "probe_exitCode (pr (nat i)) \<noteq> Inr 0"
      using "1.prems"(2) by (rule not_ready_exitCode)
    have step: "waitLoop pr maxRetries delayMs i w = waitLoop pr maxRetries delayMs (i + 1) ?w'"
      using True nz by (subst waitLoop.simps) (auto split: sum.splits)
    have ih: "fst (waitLoop pr maxRetries delayMs (i + 1) ?w') = Inr False \<and>
        int (probes (trace (snd (waitLoop pr maxRetries delayMs (i + 1) ?w')))) =
          int (probes (trace ?w')) + (maxRetries - (i + 1)) \<and>
        slept (trace (snd (waitLoop pr maxRetries delayMs (i + 1) ?w'))) =
          slept (trace ?w') + (maxRetries - (i + 1)) * delayMs"
    proof (cases "probe_exitCode (pr (nat i))")
      case (Inl e)
      show ?thesis
        using "1.IH"(1) [OF True Inl] True "1.prems"(2) by simp
    next
      case (Inr c)
      with nz have "c \<noteq> 0" by simp
      show ?thesis
        using "1.IH"(2) [OF True Inr \<open>c \<noteq> 0\<close>] True "1.prems"(2) by simp
    qed
    show ?thesis
      unfolding step using ih by (simp add: probes_emit slept_emit algebra_simps)
  qed
qed

text \<open>
  Claim C8. For every \<open>maxRetries \<ge> 1\<close>, when no attempt of the readiness probe reports
  ready (the probe exits with a code other than \<open>0\<close>, is killed, cannot be launched, or
  \<^verbatim>\<open>spawn\<close> throws), \<^verbatim>\<open>waitForDatabase(maxRetries, delayMs)\<close> returns \<^verbatim>\<open>false\<close>, does not
  throw, and has launched exactly \<open>maxRetries\<close> probes.
\<close>

theorem waitForDatabase_exhausts:
  assumes "1 \<le> maxRetries" and "\<forall>i. probe u i \<noteq> Closed (Some 0)"
  shows "fst (waitForDatabase u maxRetries delayMs w) = Inr False \<and>
         int (probes (trace (snd (waitForDatabase u maxRetries delayMs w)))) =
           int (probes (trace w)) + maxRetries"
proof -
  have "0 \<le> maxRetries" using assms(1) by simp
  moreover have "\<And>j. probe u j \<noteq> Closed (Some 0)" using assms(2) by simp
  ultimately show ?thesis
    unfolding waitForDatabase_def
    using waitLoop_never_ready [of 0 maxRetries "probe u" delayMs
        "emit (Logged ''Waiting for database to be ready...'') w"]
    by (simp add: probes_emit)
qed

text \<open>\<^verbatim>\<open>waitForDatabase(3, 10)\<close> with a probe that cannot be launched: \<^verbatim>\<open>false\<close> after
  exactly three probes.\<close>

theorem waitForDatabase_exhausts_witness:
  "fst (waitForDatabase never_launches 3 10 \<lparr>files = [], trace = []\<rparr>) = Inr False \<and>
   probes (trace (snd (waitForDatabase never_launches 3 10 \<lparr>files = [], trace = []\<rparr>))) = 3"
proof -
  have "\<forall>i. probe never_launches i \<noteq> Closed (Some 0)"
    by (simp add: never_launches_def)
  from waitForDatabase_exhausts [OF _ this, of 3 10 "\<lparr>files = [], trace = []\<rparr>"]
  show ?thesis by (simp add: probes_def)
qed

subsection \<open>A migration that fails\<close>

lemma waitLoop_ready:
  "0 \<le> i \<Longrightarrow> i \<le> j \<Longrightarrow> j < maxRetries \<Longrightarrow> pr (nat j) = Closed (Some 0) \<Longrightarrow>
   fst (waitLoop pr maxRetries delayMs i w) = Inr True"
proof (induction pr maxRetries delayMs i w rule: waitLoop.induct)
  case (1 pr maxRetries delayMs i w)
  from "1.prems" have lt: "i < maxRetries" by simp
  show ?case
  proof (cases "probe_exitCode (pr (nat i))")
    case (Inl e)
    then have "i \<noteq> j" using "1.prems"(4) by (auto simp: probe_exitCode_def)
    with "1.prems" have "0 \<le> i + 1" "i + 1 \<le> j" by simp_all
    from "1.IH"(1) [OF lt Inl this "1.prems"(3,4)] show ?thesis
      using lt Inl by (subst waitLoop.simps) simp
  next
    case (Inr c)
    show ?thesis
    proof (cases "c = 0")
      case True
      with lt Inr show ?thesis by (subst waitLoop.simps) simp
    next
      case False
      then have "i \<noteq> j" using "1.prems"(4) Inr by (auto simp: probe_exitCode_def)
      with "1.prems" have "0 \<le> i + 1" "i + 1 \<le> j" by simp_all
      from "1.IH"(2) [OF lt Inr False this "1.prems"(3,4)] show ?thesis
        using lt Inr False by (subst waitLoop.simps) simp
    qed
  qed
qed

lemma show_digits_1: "show_digits 1 = ''1''"
  by (simp add: show_digits.simps digit_char_def digit_table_def)

text \<open>
  Claim C9. When the steps before it succeeded (the reconciliation returned, a backend
  was detected, the user accepted the Docker step, the stack started and the database
  became ready), the user accepts the migration and the migration command exits with a
  code other than \<open>0\<close>, the failure is caught: a warning and the manual command
  \<^verbatim>\<open>pnpm --filter=api db:migrate:up\<close> are printed, the run goes on to its last line, and the
  process exits with code \<open>0\<close>.
\<close>

theorem migration_failure_is_not_fatal:
  assumes ok: "fst (reconcile u w) = Inr (availableApps, config)"
      and api: "api availableApps"
      and docker: "agree u ''Start Docker services (database, maildev)?'' = Some True"
      and up: "command u ''pnpm'' [''docker:up''] = Closed (Some 0)"
      and ready: "\<exists>i<30. probe u i = Closed (Some 0)"
      and migrate: "agree u ''Run database migrations?'' = Some True"
      and fails: "command u ''pnpm'' [''--filter=api'', ''db:migrate:up''] = Closed (Some code)"
      and nonzero: "code \<noteq> 0"
  shows "fst (main u w) = 0 \<and>
         (\<exists>t. trace (snd (main u w)) =
                 t @ [Ran ''pnpm'' [''--filter=api'', ''db:migrate:up''],
                      Logged ''Migration failed:'',
                      Logged (''You can run migrations manually later with: '' @ migrate_command),
                      Logged ''Setup complete!'',
                      Logged ''1. Start development: pnpm dev''])"
proof -
  define w1 where "w1 = snd (reconcile u w)"
  have r: "reconcile u w = (Inr (availableApps, config), w1)"
    using ok by (simp add: w1_def prod_eq_iff)
  define w2 where "w2 = emit (Logged ''Docker services started'')
      (emit (Ran ''pnpm'' [''docker:up''])
         (emit (Confirmed ''Start Docker services (database, maildev)?'') w1))"
  define w3 where "w3 = snd (waitForDatabase u 30 1000 w2)"
  from ready obtain j where j: "j < 30" "probe u j = Closed (Some 0)" by auto
  have "fst (waitForDatabase u 30 1000 w2) = Inr True"
    unfolding waitForDatabase_def
    using waitLoop_ready [of 0 "int j" 30 "probe u"] j by simp
  then have wait: "waitForDatabase u 30 1000 w2 = (Inr True, w3)"
    by (simp add: w3_def prod_eq_iff)
  define w4 where "w4 = emit (Confirmed ''Run database migrations?'') w3"
  define tail where "tail =
     [Ran ''pnpm'' [''--filter=api'', ''db:migrate:up''],
      Logged ''Migration failed:'',
      Logged (''You can run migrations manually later with: '' @ migrate_command)]"
  define w5 where "w5 = w4\<lparr>trace := trace w4 @ tail\<rparr>"
  have mig: "migration_step u availableApps w2 = (Inr (), w5)"
    using api migrate fails nonzero
    by (simp add: migration_step_def and_then_def wait confirm_def runCommand_def
        console_log_def emit_def w4_def w5_def tail_def)
  have dock: "docker_step u availableApps w1 = (Inr True, w5)"
    using docker up mig
    by (simp add: docker_step_def and_then_def confirm_def runCommand_def w2_def)
  have m: "main u w = (0, next_steps True availableApps w5)"
    by (simp add: main_def main_body_def and_then_def r dock)
  have "trace (next_steps True availableApps w5) =
          trace w4 @ tail @ [Logged ''Setup complete!'', Logged ''1. Start development: pnpm dev'']"
    by (simp add: next_steps_def emit_def w5_def show_digits_1 Let_def)
  then show ?thesis
    unfolding m by (simp add: tail_def)
qed

lemma backend_only_reconciled:
  "fst (reconcile migration_fails backend_only) =
     Inr (\<lparr>api = True, webSpa = False, webSsr = False, openapiGenerator = False\<rparr>,
          \<lparr>database = \<lparr>db_user = ''postgres'', db_password = ''postgres'',
                        db_name = ''lonestone_test'', db_host = ''localhost'',
                        db_port = Num 5111\<rparr>,
           ports = \<lparr>api_port = Some (Num 3000), webSpa_port = None, webSsr_port = None\<rparr>,
           smtp = \<lparr>smtp_port = Num 1025, smtp_portWeb = Num 1080\<rparr>\<rparr>)"
  by code_simp

theorem migration_failure_is_not_fatal_witness:
  "fst (main migration_fails backend_only) = 0 \<and>
   Logged ''Migration failed:'' \<in> set (trace (snd (main migration_fails backend_only))) \<and>
   Logged ''You can run migrations manually later with: pnpm --filter=api db:migrate:up''
     \<in> set (trace (snd (main migration_fails backend_only))) \<and>
   Logged ''Setup complete!'' \<in> set (trace (snd (main migration_fails backend_only)))"
proof -
  have "\<exists>i<30. probe migration_fails i = Closed (Some 0)"
    by (rule exI [of _ 2]) (simp add: migration_fails_def)
  from migration_failure_is_not_fatal [OF backend_only_reconciled _ _ _ this, of 1]
  show ?thesis
    by (auto simp: migration_fails_def migrate_command_def)
qed

end
